theory Spec2Isabelle
  imports Complex_Main "HOL-Library.Multiset"
begin

section \<open>Strings and numbers of the host language\<close>

text \<open>
  A JavaScript string is a sequence of UTF-16 code units; a code unit is modelled as a
  natural number.  The integer fields of a record are results of \<open>parseInt\<close> and are
  modelled as mathematical integers (the rounding of doubles beyond \<open>2^53\<close> is not
  modelled).  Results of \<open>Math.max\<close>, \<open>Math.min\<close> and of a division can leave the
  finite numbers, so they live in \<open>jsnum\<close>.
\<close>

type_synonym jsstring = "nat list"

datatype 'a jsnum = NegInfinity | Finite 'a | PosInfinity | NaN

text \<open>The code units that \<open>String.prototype.trim\<close> and \<open>parseInt\<close> skip.\<close>

definition is_ws :: "nat \<Rightarrow> bool" where
  "is_ws c \<longleftrightarrow>
     c = 9 \<or> c = 10 \<or> c = 11 \<or> c = 12 \<or> c = 13 \<or> c = 32 \<or> c = 160 \<or> c = 5760 \<or>
     (8192 \<le> c \<and> c \<le> 8202) \<or> c = 8232 \<or> c = 8233 \<or> c = 8239 \<or> c = 8287 \<or>
     c = 12288 \<or> c = 65279"

definition js_trim :: "jsstring \<Rightarrow> jsstring" where
  "js_trim s = rev (dropWhile is_ws (rev (dropWhile is_ws s)))"

text \<open>\<open>s.split(d)\<close> for a one-unit separator: the result is never empty.\<close>

fun js_split :: "nat \<Rightarrow> jsstring \<Rightarrow> jsstring list" where
  "js_split d [] = [[]]"
| "js_split d (c # cs) =
     (if c = d then [] # js_split d cs
      else (case js_split d cs of
              [] \<Rightarrow> [[c]]
            | f # fs \<Rightarrow> (c # f) # fs))"

fun starts_with :: "jsstring \<Rightarrow> jsstring \<Rightarrow> bool" where
  "starts_with s [] = True"
| "starts_with [] (p # ps) = False"
| "starts_with (c # cs) (p # ps) = (c = p \<and> starts_with cs ps)"

text \<open>\<open>s.includes(p)\<close>: \<open>p\<close> occurs in \<open>s\<close> at some position.\<close>

fun js_includes :: "jsstring \<Rightarrow> jsstring \<Rightarrow> bool" where
  "js_includes [] p = starts_with [] p"
| "js_includes (c # cs) p = (starts_with (c # cs) p \<or> js_includes cs p)"

text \<open>\<open>xs[i]\<close>: \<open>undefined\<close> (here \<open>None\<close>) out of range.\<close>

definition nth_opt :: "'a list \<Rightarrow> nat \<Rightarrow> 'a option" where
  "nth_opt xs i = (if i < length xs then Some (xs ! i) else None)"

text \<open>\<open>v || ''\<close> for a string or \<open>undefined\<close>: the empty string is falsy as well.\<close>

definition or_empty :: "jsstring option \<Rightarrow> jsstring" where
  "or_empty v = (case v of None \<Rightarrow> [] | Some s \<Rightarrow> s)"

text \<open>\<open>n || 0\<close> for a number or \<open>NaN\<close> (here \<open>None\<close>).\<close>

definition or_zero :: "int option \<Rightarrow> int" where
  "or_zero v = (case v of None \<Rightarrow> 0 | Some n \<Rightarrow> n)"

definition digit_val :: "nat \<Rightarrow> nat \<Rightarrow> nat option" where
  "digit_val R c =
     (let v = (if 48 \<le> c \<and> c \<le> 57 then Some (c - 48)
               else if 97 \<le> c \<and> c \<le> 122 then Some (c - 87)
               else if 65 \<le> c \<and> c \<le> 90 then Some (c - 55)
               else None)
      in case v of None \<Rightarrow> None | Some d \<Rightarrow> if d < R then Some d else None)"

text \<open>
  \<open>parseInt(s)\<close> without a radix: leading white space, an optional sign, an optional
  \<open>0x\<close> prefix, then the longest run of digits; \<open>NaN\<close> (here \<open>None\<close>) when the run is
  empty.
\<close>

definition parseInt :: "jsstring \<Rightarrow> int option" where
  "parseInt s =
     (let s1 = dropWhile is_ws s;
          neg = (case s1 of c # _ \<Rightarrow> c = 45 | [] \<Rightarrow> False);
          s2 = (case s1 of c # cs \<Rightarrow> if c = 45 \<or> c = 43 then cs else s1 | [] \<Rightarrow> []);
          hex = (case s2 of a # b # _ \<Rightarrow> a = 48 \<and> (b = 120 \<or> b = 88) | _ \<Rightarrow> False);
          R = (if hex then 16 else 10);
          s3 = (if hex then drop 2 s2 else s2);
          ds = List.map_filter (\<lambda>x. x) (takeWhile (\<lambda>d. d \<noteq> None) (map (digit_val R) s3));
          n = foldl (\<lambda>acc d. acc * R + d) 0 ds
      in if ds = [] then None else Some (if neg then - int n else int n))"

definition js_div :: "int \<Rightarrow> int \<Rightarrow> rat jsnum" where
  "js_div a b =
     (if b = 0 then (if a = 0 then NaN else if 0 < a then PosInfinity else NegInfinity)
      else Finite (of_int a / of_int b))"

fun js_scale :: "rat jsnum \<Rightarrow> rat \<Rightarrow> rat jsnum" where
  "js_scale (Finite q) k = Finite (q * k)"
| "js_scale v k = v"

fun max_step :: "int jsnum \<Rightarrow> int \<Rightarrow> int jsnum" where
  "max_step NegInfinity x = Finite x"
| "max_step (Finite m) x = Finite (max m x)"
| "max_step v x = v"

text \<open>
  \<open>Math.max(...xs)\<close>: \<open>-Infinity\<close> when there is no argument.  The engine's limit
  on the number of spread arguments is not modelled.
\<close>

definition Math_max :: "int list \<Rightarrow> int jsnum" where
  "Math_max xs = foldl max_step NegInfinity xs"

fun min_step :: "int jsnum \<Rightarrow> int \<Rightarrow> int jsnum" where
  "min_step PosInfinity x = Finite x"
| "min_step (Finite m) x = Finite (min m x)"
| "min_step v x = v"

text \<open>\<open>Math.min(...xs)\<close>: \<open>+Infinity\<close> when there is no argument.\<close>

definition Math_min :: "int list \<Rightarrow> int jsnum" where
  "Math_min xs = foldl min_step PosInfinity xs"

text \<open>
  \<open>xs.sort(cmp)\<close>: a stable sort driven by the sign of the comparator, here by
  insertion.  The source sorts in place; the model returns the sorted array, and the
  caller goes on with it.
\<close>

fun insert_by :: "('a \<Rightarrow> 'a \<Rightarrow> int) \<Rightarrow> 'a \<Rightarrow> 'a list \<Rightarrow> 'a list" where
  "insert_by cmp x [] = [x]"
| "insert_by cmp x (y # ys) =
     (if cmp x y \<le> 0 then x # y # ys else y # insert_by cmp x ys)"

definition js_sort :: "('a \<Rightarrow> 'a \<Rightarrow> int) \<Rightarrow> 'a list \<Rightarrow> 'a list" where
  "js_sort cmp xs = foldr (insert_by cmp) xs []"

section \<open>The data model\<close>

record AdData =
  order :: int
  keyword :: jsstring
  keywordType :: jsstring
  searchCommand :: jsstring
  biddingMethod :: jsstring
  views :: int
  clicks :: int
  clickRate :: jsstring
  conversions :: int
  directConversions :: int
  conversionRate :: jsstring
  directConversionRate :: jsstring
  costPerConversion :: jsstring
  directCostPerConversion :: jsstring
  productsSold :: int
  directProductsSold :: int
  gmv :: int
  directGmv :: int
  cost :: int
  averageRank :: int
  roas :: jsstring
  directRoas :: jsstring
  acos :: jsstring
  directAcos :: jsstring

record AdReportHeader =
  reportTitle :: jsstring
  username :: jsstring
  storeName :: jsstring
  sellerId :: jsstring
  adName :: jsstring
  productId :: jsstring
  reportCreationTime :: jsstring
  timeRange :: jsstring

text \<open>An entry of \<open>statistics.topKeywords\<close>.\<close>

record TopKeyword =
  top_keyword :: jsstring
  top_views :: int
  top_clicks :: int
  top_cost :: int

text \<open>The shape of \<open>statistics.maxValues\<close> and \<open>statistics.minValues\<close>.\<close>

record MetricValues =
  m_views :: "int jsnum"
  m_clicks :: "int jsnum"
  m_cost :: "int jsnum"
  m_gmv :: "int jsnum"

record Statistics =
  totalViews :: int
  totalClicks :: int
  totalCost :: int
  totalGmv :: int
  totalConversions :: int
  averageClickRate :: "rat jsnum"
  averageConversionRate :: "rat jsnum"
  topKeywords :: "TopKeyword list"
  maxValues :: MetricValues
  minValues :: MetricValues

record ParsedAdData =
  header :: AdReportHeader
  data :: "AdData list"
  statistics :: Statistics

datatype error = DataSectionNotFound | Thrown

text \<open>
  \<open>Papa.parse\<close> is a library outside the repository: it is a parameter \<open>papa\<close> of the
  parser, giving for a line either \<open>parsed.data\<close> (the rows, each a list of fields) or
  an exception.
\<close>

type_synonym splitter = "jsstring \<Rightarrow> error + jsstring list list"

section \<open>parseCSVData\<close>

text \<open>The literal \<open>Th\<dots> t\<dots>,T\<dots> kh\<dots>a,Lo\<dots>i t\<dots> kh\<dots>a\<close> of the column-header line, as code units.\<close>

definition marker :: jsstring where
  "marker = [84, 104, 7913, 32, 116, 7921, 44,
             84, 7915, 32, 107, 104, 243, 97, 44,
             76, 111, 7841, 105, 32, 116, 7915, 32, 107, 104, 243, 97]"

definition split_lines :: "jsstring \<Rightarrow> jsstring list" where
  "split_lines csvText = filter (\<lambda>line. js_trim line \<noteq> []) (js_split 10 csvText)"

text \<open>\<open>lines[i]?.split(',')[1] || ''\<close>\<close>

definition second_field :: "jsstring list \<Rightarrow> nat \<Rightarrow> jsstring" where
  "second_field lines i =
     (case nth_opt lines i of
        None \<Rightarrow> []
      | Some line \<Rightarrow> or_empty (nth_opt (js_split 44 line) 1))"

definition parse_header :: "jsstring list \<Rightarrow> AdReportHeader" where
  "parse_header lines =
     \<lparr> reportTitle = or_empty (nth_opt lines 0),
       username = second_field lines 1,
       storeName = second_field lines 2,
       sellerId = second_field lines 3,
       adName = second_field lines 4,
       productId = second_field lines 5,
       reportCreationTime = second_field lines 7,
       timeRange = second_field lines 8 \<rparr>"

text \<open>
  The scan for the column-header line: \<open>i\<close> is the loop index, the list holds
  \<open>lines[i..]\<close>; \<open>None\<close> is \<open>dataStartIndex === -1\<close>.
\<close>

fun find_data_start :: "jsstring list \<Rightarrow> nat \<Rightarrow> nat option" where
  "find_data_start [] i = None"
| "find_data_start (line # rest) i =
     (if js_includes line marker then Some (i + 1) else find_data_start rest (i + 1))"

definition field_int :: "jsstring list \<Rightarrow> nat \<Rightarrow> int" where
  "field_int row i = or_zero (case nth_opt row i of None \<Rightarrow> None | Some s \<Rightarrow> parseInt s)"

definition field_str :: "jsstring list \<Rightarrow> nat \<Rightarrow> jsstring" where
  "field_str row i = or_empty (nth_opt row i)"

definition make_AdData :: "jsstring list \<Rightarrow> AdData" where
  "make_AdData row =
     \<lparr> order = field_int row 0,
       keyword = field_str row 1,
       keywordType = field_str row 2,
       searchCommand = field_str row 3,
       biddingMethod = field_str row 4,
       views = field_int row 5,
       clicks = field_int row 6,
       clickRate = field_str row 7,
       conversions = field_int row 8,
       directConversions = field_int row 9,
       conversionRate = field_str row 10,
       directConversionRate = field_str row 11,
       costPerConversion = field_str row 12,
       directCostPerConversion = field_str row 13,
       productsSold = field_int row 14,
       directProductsSold = field_int row 15,
       gmv = field_int row 16,
       directGmv = field_int row 17,
       cost = field_int row 18,
       averageRank = field_int row 19,
       roas = field_str row 20,
       directRoas = field_str row 21,
       acos = field_str row 22,
       directAcos = field_str row 23 \<rparr>"

text \<open>The row loop: \<open>acc\<close> is the array \<open>data\<close> built so far.\<close>

fun parse_rows :: "splitter \<Rightarrow> jsstring list \<Rightarrow> AdData list \<Rightarrow> error + AdData list" where
  "parse_rows papa [] acc = Inr acc"
| "parse_rows papa (line # rest) acc =
     (if js_trim line = [] then parse_rows papa rest acc
      else (case papa line of
              Inl e \<Rightarrow> Inl e
            | Inr parsed \<Rightarrow>
                (case parsed of
                   [] \<Rightarrow> parse_rows papa rest acc
                 | row # _ \<Rightarrow>
                     if 24 \<le> length row then parse_rows papa rest (acc @ [make_AdData row])
                     else parse_rows papa rest acc)))"

definition by_views_desc :: "AdData \<Rightarrow> AdData \<Rightarrow> int" where
  "by_views_desc a b = views b - views a"

definition to_top :: "AdData \<Rightarrow> TopKeyword" where
  "to_top item =
     \<lparr> top_keyword = keyword item, top_views = views item,
       top_clicks = clicks item, top_cost = cost item \<rparr>"

text \<open>\<open>nz.length > 0 ? Math.min(...nz) : 0\<close> over the strictly positive values.\<close>

definition min_nonzero :: "(AdData \<Rightarrow> int) \<Rightarrow> AdData list \<Rightarrow> int jsnum" where
  "min_nonzero f items =
     (let nz = map f (filter (\<lambda>item. 0 < f item) items)
      in if 0 < length nz then Math_min nz else Finite 0)"

text \<open>
  The statistics block.  The totals read \<open>data\<close> before the sort; the sort reorders
  \<open>data\<close> in place, so everything after it, and the caller, sees the sorted array: the
  function returns it with the statistics.
\<close>

definition calc_statistics :: "AdData list \<Rightarrow> AdData list \<times> Statistics" where
  "calc_statistics items =
     (let tViews = foldl (\<lambda>sum item. sum + views item) 0 items;
          tClicks = foldl (\<lambda>sum item. sum + clicks item) 0 items;
          tCost = foldl (\<lambda>sum item. sum + cost item) 0 items;
          tGmv = foldl (\<lambda>sum item. sum + gmv item) 0 items;
          tConversions = foldl (\<lambda>sum item. sum + conversions item) 0 items;
          sorted = js_sort by_views_desc items
      in (sorted,
          \<lparr> totalViews = tViews,
            totalClicks = tClicks,
            totalCost = tCost,
            totalGmv = tGmv,
            totalConversions = tConversions,
            averageClickRate =
              (if 0 < tViews then js_scale (js_div tClicks tViews) 100 else Finite 0),
            averageConversionRate =
              (if 0 < tClicks then js_scale (js_div tConversions tClicks) 100 else Finite 0),
            topKeywords = map to_top (take 10 sorted),
            maxValues =
              \<lparr> m_views = Math_max (map views sorted),
                m_clicks = Math_max (map clicks sorted),
                m_cost = Math_max (map cost sorted),
                m_gmv = Math_max (map gmv sorted) \<rparr>,
            minValues =
              \<lparr> m_views = min_nonzero views sorted,
                m_clicks = min_nonzero clicks sorted,
                m_cost = min_nonzero cost sorted,
                m_gmv = min_nonzero gmv sorted \<rparr> \<rparr>))"

text \<open>The body of the \<open>try\<close> block: \<open>Inl\<close> is an exception leaving it.\<close>

definition parse_body :: "splitter \<Rightarrow> jsstring \<Rightarrow> error + ParsedAdData" where
  "parse_body papa csvText =
     (let lines = split_lines csvText;
          hdr = parse_header lines
      in case find_data_start lines 0 of
           None \<Rightarrow> Inl DataSectionNotFound
         | Some dataStartIndex \<Rightarrow>
             (case parse_rows papa (drop dataStartIndex lines) [] of
                Inl e \<Rightarrow> Inl e
              | Inr items \<Rightarrow>
                  (let (sorted, stats) = calc_statistics items
                   in Inr \<lparr> header = hdr, data = sorted, statistics = stats \<rparr>)))"

text \<open>The \<open>catch\<close> turns every exception into \<open>null\<close> (here \<open>None\<close>).\<close>

definition parseCSVData :: "splitter \<Rightarrow> jsstring \<Rightarrow> ParsedAdData option" where
  "parseCSVData papa csvText =
     (case parse_body papa csvText of Inl e \<Rightarrow> None | Inr r \<Rightarrow> Some r)"

text \<open>
  The array \<open>data\<close> as the row loop leaves it, in source order, before the statistics
  block: the first half of \<open>parse_body\<close>.
\<close>

definition source_records :: "splitter \<Rightarrow> jsstring \<Rightarrow> error + AdData list" where
  "source_records papa csvText =
     (case find_data_start (split_lines csvText) 0 of
        None \<Rightarrow> Inl DataSectionNotFound
      | Some dataStartIndex \<Rightarrow> parse_rows papa (drop dataStartIndex (split_lines csvText)) [])"

section \<open>What the specification says\<close>

text \<open>
  The header as the specification words it: the second comma-delimited field of line
  \<open>i\<close>, or the empty string when the line does not exist or has fewer than two
  fields.
\<close>

definition spec_second_field :: "jsstring list \<Rightarrow> nat \<Rightarrow> jsstring" where
  "spec_second_field lines i =
     (if i < length lines \<and> 2 \<le> length (js_split 44 (lines ! i))
      then js_split 44 (lines ! i) ! 1 else [])"

definition spec_header :: "jsstring list \<Rightarrow> AdReportHeader" where
  "spec_header lines =
     \<lparr> reportTitle = (if 0 < length lines then lines ! 0 else []),
       username = spec_second_field lines 1,
       storeName = spec_second_field lines 2,
       sellerId = spec_second_field lines 3,
       adName = spec_second_field lines 4,
       productId = spec_second_field lines 5,
       reportCreationTime = spec_second_field lines 7,
       timeRange = spec_second_field lines 8 \<rparr>"

text \<open>The fields of a line: the first row the splitter gives, if it gives one.\<close>

definition first_row :: "splitter \<Rightarrow> jsstring \<Rightarrow> jsstring list option" where
  "first_row papa line = (case papa line of Inr (row # _) \<Rightarrow> Some row | _ \<Rightarrow> None)"

text \<open>A short row has fewer than 24 fields; a valid row is not blank and has at least 24.\<close>

definition short_line :: "splitter \<Rightarrow> jsstring \<Rightarrow> bool" where
  "short_line papa line \<longleftrightarrow>
     (case first_row papa line of Some row \<Rightarrow> length row < 24 | None \<Rightarrow> False)"

definition valid_line :: "splitter \<Rightarrow> jsstring \<Rightarrow> bool" where
  "valid_line papa line \<longleftrightarrow>
     js_trim line \<noteq> [] \<and>
     (case first_row papa line of Some row \<Rightarrow> 24 \<le> length row | None \<Rightarrow> False)"

definition record_of_line :: "splitter \<Rightarrow> jsstring \<Rightarrow> AdData" where
  "record_of_line papa line =
     make_AdData (case first_row papa line of Some row \<Rightarrow> row | None \<Rightarrow> [])"

text \<open>The order of the ranking: non-increasing views.\<close>

abbreviation views_desc :: "AdData \<Rightarrow> AdData \<Rightarrow> bool" where
  "views_desc a b \<equiv> views b \<le> views a"

section \<open>Sample inputs\<close>

text \<open>
  A field splitter for lines without quotes, where \<open>Papa.parse\<close> splits at every comma
  and gives one row; and a splitter that throws on every line.
\<close>

definition plain_splitter :: splitter where
  "plain_splitter line = Inr [js_split 44 line]"


text \<open>ASCII text as code units.\<close>

definition units :: "string \<Rightarrow> jsstring" where
  "units s = map of_char s"

definition row_a :: jsstring where
  "row_a = units ''1,shoes,broad,buy shoes,auto,100,10,10%,2,1,r,r,c,c,3,1,5000,2000,300,4,r,r,a,a''"

definition row_b :: jsstring where
  "row_b = units ''2,hat,exact,buy hat,auto,250,5,2%,1,1,r,r,c,c,3,1,0,0,120,4,r,r,a,a''"

definition row_short :: jsstring where
  "row_short = units ''3,sock,broad,buy sock,auto,70,7,10%,1,1''"

definition row_neg :: jsstring where
  "row_neg = units ''4,cap,exact,buy cap,auto,-5,1,0%,0,0,r,r,c,c,0,0,0,0,0,4,r,r,a,a''"

text \<open>
  Nine header lines; the sixth has no comma, and a line of white space stands before
  the eighth.
\<close>

definition head_lines :: "jsstring list" where
  "head_lines =
     [units ''Keyword report'', units ''User,bob'', units ''Store,Bob Shop'', units ''Seller,42'',
      units ''Ad,Summer'', units ''Product'', units ''Note,n'', units ''Created,2024-01-01'',
      units ''Range,Jan,Feb'']"

definition report_head :: jsstring where
  "report_head =
     units ''Keyword report'' @ [10] @ units ''User,bob'' @ [10] @
     units ''Store,Bob Shop'' @ [10] @ units ''Seller,42'' @ [10] @
     units ''Ad,Summer'' @ [10] @ units ''Product'' @ [10] @ units ''Note,n'' @ [10] @
     [32, 9, 10] @ units ''Created,2024-01-01'' @ [10] @ units ''Range,Jan,Feb'' @ [10]"

definition header_line :: jsstring where
  "header_line = marker @ units '',Search,Bid''"

text \<open>A report with two valid rows, in ascending order of views, and a short row between them.\<close>

definition sample_report :: jsstring where
  "sample_report =
     report_head @ [10] @ header_line @ [10] @ row_a @ [10] @ row_short @ [10] @ row_b @ [10]"

text \<open>The same report without the short row.\<close>

definition sample_report_clean :: jsstring where
  "sample_report_clean = report_head @ [10] @ header_line @ [10] @ row_a @ [10] @ row_b @ [10]"

text \<open>A report whose data section is empty, and one whose only row has negative views.\<close>

definition empty_report :: jsstring where
  "empty_report = report_head @ header_line @ [10]"

definition negative_report :: jsstring where
  "negative_report = report_head @ header_line @ [10] @ row_neg"

text \<open>The records of the valid rows, as the row loop builds them.\<close>

definition item_a :: AdData where
  "item_a =
     \<lparr> order = 1, keyword = units ''shoes'', keywordType = units ''broad'',
       searchCommand = units ''buy shoes'', biddingMethod = units ''auto'', views = 100,
       clicks = 10, clickRate = units ''10%'', conversions = 2, directConversions = 1,
       conversionRate = units ''r'', directConversionRate = units ''r'',
       costPerConversion = units ''c'', directCostPerConversion = units ''c'', productsSold = 3,
       directProductsSold = 1, gmv = 5000, directGmv = 2000, cost = 300, averageRank = 4,
       roas = units ''r'', directRoas = units ''r'', acos = units ''a'',
       directAcos = units ''a'' \<rparr>"

definition item_b :: AdData where
  "item_b =
     \<lparr> order = 2, keyword = units ''hat'', keywordType = units ''exact'',
       searchCommand = units ''buy hat'', biddingMethod = units ''auto'', views = 250,
       clicks = 5, clickRate = units ''2%'', conversions = 1, directConversions = 1,
       conversionRate = units ''r'', directConversionRate = units ''r'',
       costPerConversion = units ''c'', directCostPerConversion = units ''c'', productsSold = 3,
       directProductsSold = 1, gmv = 0, directGmv = 0, cost = 120, averageRank = 4,
       roas = units ''r'', directRoas = units ''r'', acos = units ''a'',
       directAcos = units ''a'' \<rparr>"

definition item_neg :: AdData where
  "item_neg =
     \<lparr> order = 4, keyword = units ''cap'', keywordType = units ''exact'',
       searchCommand = units ''buy cap'', biddingMethod = units ''auto'', views = - 5,
       clicks = 1, clickRate = units ''0%'', conversions = 0, directConversions = 0,
       conversionRate = units ''r'', directConversionRate = units ''r'',
       costPerConversion = units ''c'', directCostPerConversion = units ''c'', productsSold = 0,
       directProductsSold = 0, gmv = 0, directGmv = 0, cost = 0, averageRank = 4,
       roas = units ''r'', directRoas = units ''r'', acos = units ''a'',
       directAcos = units ''a'' \<rparr>"

definition sample_items :: "AdData list" where
  "sample_items = [item_a, item_b]"

text \<open>The definitions a concrete input is evaluated with.\<close>

lemmas text_defs =
  units_def marker_def row_a_def row_b_def row_short_def row_neg_def report_head_def
  header_line_def sample_report_def sample_report_clean_def empty_report_def
  negative_report_def head_lines_def

lemmas item_defs = item_a_def item_b_def item_neg_def sample_items_def

lemmas line_defs = split_lines_def js_trim_def is_ws_def

lemmas row_defs =
  plain_splitter_def make_AdData_def field_int_def field_str_def parseInt_def digit_val_def
  nth_opt_def or_empty_def or_zero_def js_trim_def is_ws_def Let_def
  first_row_def short_line_def valid_line_def record_of_line_def

lemmas header_defs =
  parse_header_def second_field_def nth_opt_def or_empty_def spec_header_def
  spec_second_field_def

lemmas stats_defs =
  calc_statistics_def js_sort_def by_views_desc_def to_top_def min_nonzero_def Math_max_def
  Math_min_def js_div_def Let_def

section \<open>Auxiliary facts\<close>

subsection \<open>The sums, the sort and the extremes\<close>


lemma mset_insert_by: "mset (insert_by cmp x xs) = add_mset x (mset xs)"
  by (induction xs) simp_all

lemma mset_js_sort: "mset (js_sort cmp xs) = mset xs"
  by (induction xs) (simp_all add: js_sort_def mset_insert_by)

lemma set_js_sort: "set (js_sort cmp xs) = set xs"
  by (metis mset_js_sort set_mset_mset)

lemma length_js_sort: "length (js_sort cmp xs) = length xs"
  by (metis mset_js_sort size_mset)


lemma set_insert_by: "set (insert_by cmp x xs) = insert x (set xs)"
  by (induction xs) auto

lemma sorted_insert_by:
  "sorted_wrt views_desc xs \<Longrightarrow> sorted_wrt views_desc (insert_by by_views_desc x xs)"
  by (induction xs) (auto simp: set_insert_by by_views_desc_def)

lemma sorted_js_sort: "sorted_wrt views_desc (js_sort by_views_desc xs)"
  by (induction xs) (simp_all add: js_sort_def sorted_insert_by)

lemma foldl_max_step: "foldl max_step (Finite m) xs = Finite (Max (insert m (set xs)))"
proof (induction xs arbitrary: m)
  case Nil
  show ?case by simp
next
  case (Cons x xs)
  have "Max (insert (max m x) (set xs)) = Max (insert m (insert x (set xs)))"
    by (cases "set xs = {}") (simp_all add: max.assoc max.commute)
  with Cons show ?case by simp
qed

lemma Math_max_Cons: "Math_max (x # xs) = Finite (Max (set (x # xs)))"
  by (simp add: Math_max_def foldl_max_step)

lemma foldl_min_step: "foldl min_step (Finite m) xs = Finite (Min (insert m (set xs)))"
proof (induction xs arbitrary: m)
  case Nil
  show ?case by simp
next
  case (Cons x xs)
  have "Min (insert (min m x) (set xs)) = Min (insert m (insert x (set xs)))"
    by (cases "set xs = {}") (simp_all add: min.assoc min.commute)
  with Cons show ?case by simp
qed

lemma Math_min_Cons: "Math_min (x # xs) = Finite (Min (set (x # xs)))"
  by (simp add: Math_min_def foldl_min_step)

lemma Math_min_nonempty: "xs \<noteq> [] \<Longrightarrow> Math_min xs = Finite (Min (set xs))"
  by (cases xs) (simp_all add: Math_min_Cons)

lemma Math_max_nonempty: "xs \<noteq> [] \<Longrightarrow> Math_max xs = Finite (Max (set xs))"
  by (cases xs) (simp_all add: Math_max_Cons)

lemma min_nonzero_char:
  "min_nonzero f items =
     (if \<forall>r \<in> set items. f r \<le> 0 then Finite 0
      else Finite (Min (f ` {r \<in> set items. 0 < f r})))"
proof (cases "filter (\<lambda>item. 0 < f item) items = []")
  case True
  then have "\<forall>r \<in> set items. f r \<le> 0"
    by (auto simp: filter_empty_conv)
  with True show ?thesis by (simp add: min_nonzero_def)
next
  case False
  then have ex: "\<not> (\<forall>r \<in> set items. f r \<le> 0)"
    by (force simp: filter_empty_conv)
  have img: "set (map f (filter (\<lambda>item. 0 < f item) items)) = f ` {r \<in> set items. 0 < f r}"
    by auto
  have "min_nonzero f items = Math_min (map f (filter (\<lambda>item. 0 < f item) items))"
    using False by (simp add: min_nonzero_def)
  also have "\<dots> = Finite (Min (f ` {r \<in> set items. 0 < f r}))"
    using False img by (simp only: Math_min_nonempty map_is_Nil_conv not_False_eq_True)
  finally show ?thesis by (simp only: ex if_False)
qed

lemma calc_fst: "fst (calc_statistics items) = js_sort by_views_desc items"
  by (simp add: calc_statistics_def Let_def)

lemma js_sort_eq_Nil: "js_sort cmp xs = [] \<longleftrightarrow> xs = []"
  using length_js_sort [of cmp xs] by (metis length_0_conv)

lemma Math_max_sorted:
  assumes "items \<noteq> []"
  shows "Math_max (map f (js_sort cmp items)) = Finite (Max (f ` set items))"
proof -
  from assms have "map f (js_sort cmp items) \<noteq> []"
    by (simp add: js_sort_eq_Nil)
  from Math_max_nonempty [OF this] show ?thesis
    by (simp add: set_js_sort)
qed

lemma min_nonzero_sorted:
  "min_nonzero f (js_sort cmp items) =
     (if \<forall>r \<in> set items. f r \<le> 0 then Finite 0
      else Finite (Min (f ` {r \<in> set items. 0 < f r})))"
  by (simp only: min_nonzero_char set_js_sort)

lemma sorted_wrt_take: "sorted_wrt P xs \<Longrightarrow> sorted_wrt P (take n xs)"
  by (metis append_take_drop_id sorted_wrt_append)

subsection \<open>Strings and lines\<close>



lemma js_trim_eq_Nil: "js_trim s = [] \<longleftrightarrow> (\<forall>c \<in> set s. is_ws c)"
proof
  assume "js_trim s = []"
  then have *: "\<forall>c \<in> set (dropWhile is_ws s). is_ws c"
    by (simp add: js_trim_def dropWhile_eq_Nil_conv)
  show "\<forall>c \<in> set s. is_ws c"
  proof (cases "dropWhile is_ws s")
    case Nil
    then show ?thesis by (simp add: dropWhile_eq_Nil_conv)
  next
    case (Cons x xs)
    then have "\<not> is_ws x" by (metis hd_dropWhile list.sel(1) list.distinct(1))
    with * Cons show ?thesis by simp
  qed
next
  assume "\<forall>c \<in> set s. is_ws c"
  then show "js_trim s = []" by (auto simp: js_trim_def dest: set_dropWhileD)
qed



lemma split_lines_nonblank:
  "split_lines t = filter (\<lambda>line. \<exists>c \<in> set line. \<not> is_ws c) (js_split 10 t)"
  by (simp add: split_lines_def js_trim_eq_Nil)

subsection \<open>The scan and the row loop\<close>


lemma find_data_start_first:
  assumes "\<forall>x \<in> set pre. \<not> js_includes x marker" and "js_includes l marker"
  shows "find_data_start (pre @ l # post) i = Some (i + length pre + 1)"
  using assms by (induction pre arbitrary: i) auto


lemma parse_body_via:
  "parse_body papa t =
     (case source_records papa t of
        Inl e \<Rightarrow> Inl e
      | Inr items \<Rightarrow>
          Inr \<lparr> header = parse_header (split_lines t), data = js_sort by_views_desc items,
                statistics = snd (calc_statistics items) \<rparr>)"
  by (simp add: parse_body_def source_records_def Let_def calc_fst [symmetric] split: option.splits sum.splits prod.splits)

lemma parseCSVData_via:
  "parseCSVData papa t =
     (case source_records papa t of
        Inl e \<Rightarrow> None
      | Inr items \<Rightarrow>
          Some \<lparr> header = parse_header (split_lines t), data = js_sort by_views_desc items,
                 statistics = snd (calc_statistics items) \<rparr>)"
  by (simp add: parseCSVData_def parse_body_via split: sum.splits)

lemma second_field_spec: "second_field lines i = spec_second_field lines i"
  by (simp add: second_field_def spec_second_field_def nth_opt_def or_empty_def)

lemma parse_header_spec: "parse_header lines = spec_header lines"
  by (simp add: parse_header_def spec_header_def second_field_spec nth_opt_def or_empty_def)

lemma parse_rows_append:
  "parse_rows papa (xs @ ys) acc =
     (case parse_rows papa xs acc of Inl e \<Rightarrow> Inl e | Inr acc' \<Rightarrow> parse_rows papa ys acc')"
  by (induction xs arbitrary: acc) (simp_all split: sum.splits list.splits)

lemma parse_rows_short:
  "short_line papa l \<Longrightarrow> parse_rows papa (l # ys) acc = parse_rows papa ys acc"
  by (auto simp: short_line_def first_row_def split: sum.splits list.splits)

lemma parse_rows_valid:
  "\<forall>x \<in> set ls. valid_line papa x \<Longrightarrow>
   parse_rows papa ls acc = Inr (acc @ map (record_of_line papa) ls)"
  by (induction ls arbitrary: acc)
     (auto simp: valid_line_def first_row_def record_of_line_def split: sum.splits list.splits)

lemma parse_rows_drop_short:
  assumes "short_line papa l"
  shows "parse_rows papa (xs @ l # ys) acc = parse_rows papa (xs @ ys) acc"
proof (cases "parse_rows papa xs acc")
  case (Inl e)
  then show ?thesis by (simp add: parse_rows_append)
next
  case (Inr acc')
  then show ?thesis
    using parse_rows_short [OF assms, of ys acc']
    by (simp add: parse_rows_append del: parse_rows.simps)
qed

subsection \<open>The sample inputs, evaluated\<close>

lemma sample_lines:
  "split_lines sample_report = head_lines @ header_line # [row_a, row_short, row_b]"
  by (simp add: text_defs line_defs)

lemma clean_lines:
  "split_lines sample_report_clean = head_lines @ header_line # [row_a, row_b]"
  by (simp add: text_defs line_defs)

lemma empty_lines: "split_lines empty_report = head_lines @ header_line # []"
  by (simp add: text_defs line_defs)


lemma head_lines_no_marker: "\<forall>x \<in> set head_lines. \<not> js_includes x marker"
  by (simp add: text_defs)

lemma header_line_marker: "js_includes header_line marker"
  by (simp add: text_defs)

lemma start_after_head:
  "find_data_start (head_lines @ header_line # post) 0 = Some (length head_lines + 1)"
  using find_data_start_first [OF head_lines_no_marker header_line_marker, of post 0] by simp

lemma source_after_head:
  "split_lines t = head_lines @ header_line # post \<Longrightarrow>
   source_records papa t = parse_rows papa post []"
  by (simp add: source_records_def start_after_head)

lemma rows_sample: "parse_rows plain_splitter [row_a, row_short, row_b] [] = Inr sample_items"
  by (simp add: text_defs row_defs item_defs)

lemma rows_clean: "parse_rows plain_splitter [row_a, row_b] [] = Inr sample_items"
  by (simp add: text_defs row_defs item_defs)


lemma sample_source: "source_records plain_splitter sample_report = Inr sample_items"
  by (simp only: source_after_head [OF sample_lines] rows_sample)

lemma clean_source: "source_records plain_splitter sample_report_clean = Inr sample_items"
  by (simp only: source_after_head [OF clean_lines] rows_clean)

lemma empty_source: "source_records papa empty_report = Inr []"
  by (simp add: source_after_head [OF empty_lines])


lemma sorted_sample_items:
  "js_sort by_views_desc sample_items =
     [item_b, item_a]"
  by (simp add: js_sort_def by_views_desc_def item_defs)

lemma sample_parse:
  "parseCSVData plain_splitter sample_report =
     Some \<lparr> header = parse_header (split_lines sample_report),
            data = [item_b, item_a],
            statistics = snd (calc_statistics sample_items) \<rparr>"
  by (simp only: parseCSVData_via sample_source sum.case sorted_sample_items)

lemma clean_parse:
  "parseCSVData plain_splitter sample_report_clean =
     Some \<lparr> header = parse_header (split_lines sample_report_clean),
            data = [item_b, item_a],
            statistics = snd (calc_statistics sample_items) \<rparr>"
  by (simp only: parseCSVData_via clean_source sum.case sorted_sample_items)

lemma empty_parse:
  "parseCSVData papa empty_report =
     Some \<lparr> header = parse_header (split_lines empty_report), data = [],
            statistics = snd (calc_statistics []) \<rparr>"
  by (simp add: parseCSVData_via empty_source js_sort_def)


lemma short_row_short: "short_line plain_splitter row_short"
  by (simp add: text_defs row_defs)

lemma rows_valid:
  "valid_line plain_splitter row_a \<and> valid_line plain_splitter row_b \<and>
   valid_line plain_splitter row_neg"
  by (simp add: text_defs row_defs)

lemma marker_only_lines: "split_lines header_line = [header_line]"
  by (simp add: text_defs line_defs)

lemma marker_only_parse:
  "parseCSVData papa header_line =
     Some \<lparr> header = parse_header [header_line], data = [],
            statistics = snd (calc_statistics []) \<rparr>"
proof -
  have "find_data_start [header_line] 0 = Some 1"
    using find_data_start_first [OF _ header_line_marker, of "[]" "[]" 0] by simp
  then have "source_records papa header_line = Inr []"
    by (simp add: source_records_def marker_only_lines)
  then show ?thesis
    by (simp add: parseCSVData_via marker_only_lines js_sort_def)
qed

section \<open>The report parser\<close>

text \<open>
  C2.  For every input text the lines are those of the split at line feeds that hold a
  unit other than white space, and the header is read from fixed positions of that
  filtered list: line 0 is the title; lines 1, 2, 3, 4, 5 give the second comma-delimited
  field as username, store name, seller id, ad name and product id; line 7 gives the
  report creation time and line 8 the time range (line 6 is not read).  A line that does
  not exist or has fewer than 2 fields gives the empty string, and the parse does not fail
  for it: it fails only where the scan or the row loop does.
\<close>

theorem header_from_fixed_lines:
  "split_lines t = filter (\<lambda>line. \<exists>c \<in> set line. \<not> is_ws c) (js_split 10 t) \<and>
   parse_header (split_lines t) = spec_header (split_lines t) \<and>
   (parseCSVData papa t = Some r \<longrightarrow> header r = spec_header (split_lines t)) \<and>
   (parseCSVData papa t = None \<longleftrightarrow> (\<exists>e. source_records papa t = Inl e))"
proof (intro conjI impI)
  show "split_lines t = filter (\<lambda>line. \<exists>c \<in> set line. \<not> is_ws c) (js_split 10 t)"
    by (rule split_lines_nonblank)
  show "parse_header (split_lines t) = spec_header (split_lines t)"
    by (rule parse_header_spec)
  show "parseCSVData papa t = None \<longleftrightarrow> (\<exists>e. source_records papa t = Inl e)"
    by (cases "source_records papa t") (simp_all add: parseCSVData_via)
next
  assume "parseCSVData papa t = Some r"
  then show "header r = spec_header (split_lines t)"
    by (auto simp: parse_header_spec parseCSVData_via split: sum.splits)
qed

theorem header_from_fixed_lines_witness:
  "header (the (parseCSVData plain_splitter empty_report)) =
     \<lparr> reportTitle = units ''Keyword report'', username = units ''bob'',
       storeName = units ''Bob Shop'', sellerId = units ''42'', adName = units ''Summer'',
       productId = [], reportCreationTime = units ''2024-01-01'', timeRange = units ''Jan'' \<rparr> \<and>
   header (the (parseCSVData plain_splitter header_line)) =
     \<lparr> reportTitle = header_line, username = [], storeName = [], sellerId = [], adName = [],
       productId = [], reportCreationTime = [], timeRange = [] \<rparr>"
proof -
  have "header (the (parseCSVData plain_splitter empty_report)) =
          spec_header (split_lines empty_report)"
    using header_from_fixed_lines [of empty_report plain_splitter
        "the (parseCSVData plain_splitter empty_report)",
        THEN conjunct2, THEN conjunct2, THEN conjunct1]
    by (simp add: empty_parse)
  moreover have "spec_header (head_lines @ [header_line]) =
     \<lparr> reportTitle = units ''Keyword report'', username = units ''bob'',
       storeName = units ''Bob Shop'', sellerId = units ''42'', adName = units ''Summer'',
       productId = [], reportCreationTime = units ''2024-01-01'', timeRange = units ''Jan'' \<rparr>"
    by (simp add: header_defs head_lines_def units_def)
  moreover have "header (the (parseCSVData plain_splitter header_line)) =
          spec_header (split_lines header_line)"
    using header_from_fixed_lines [of header_line plain_splitter
        "the (parseCSVData plain_splitter header_line)",
        THEN conjunct2, THEN conjunct2, THEN conjunct1]
    by (simp add: marker_only_parse)
  moreover have "spec_header [header_line] =
     \<lparr> reportTitle = header_line, username = [], storeName = [], sellerId = [], adName = [],
       productId = [], reportCreationTime = [], timeRange = [] \<rparr>"
    by (simp add: header_defs)
  ultimately show ?thesis by (simp add: empty_lines marker_only_lines)
qed



text \<open>
  C8, as the code has it.  A line whose first row has fewer than 24 fields leaves the
  loop's outcome what it is without the line: no record for it and no error from it.
  Among otherwise valid lines, the records are those of the other lines, in order: as
  many as the input without the short line gives, one fewer than there are lines, and one
  fewer than with a valid line in its place.
\<close>

theorem short_row_omitted:
  "(short_line papa l \<longrightarrow>
      parse_rows papa (xs @ l # ys) acc = parse_rows papa (xs @ ys) acc) \<and>
   (short_line papa l \<and> (\<forall>x \<in> set (xs @ ys). valid_line papa x) \<longrightarrow>
      parse_rows papa (xs @ l # ys) [] = Inr (map (record_of_line papa) (xs @ ys)) \<and>
      parse_rows papa (xs @ ys) [] = Inr (map (record_of_line papa) (xs @ ys)) \<and>
      length (map (record_of_line papa) (xs @ ys)) + 1 = length (xs @ l # ys) \<and>
      (valid_line papa v \<longrightarrow>
         parse_rows papa (xs @ v # ys) [] = Inr (map (record_of_line papa) (xs @ v # ys))))"
proof (intro conjI impI)
  assume "short_line papa l"
  then show "parse_rows papa (xs @ l # ys) acc = parse_rows papa (xs @ ys) acc"
    by (rule parse_rows_drop_short)
next
  assume a: "short_line papa l \<and> (\<forall>x \<in> set (xs @ ys). valid_line papa x)"
  then have v: "\<forall>x \<in> set (xs @ ys). valid_line papa x" by simp
  from parse_rows_valid [OF v, of "[]"]
  show c: "parse_rows papa (xs @ ys) [] = Inr (map (record_of_line papa) (xs @ ys))" by simp
  from a c show "parse_rows papa (xs @ l # ys) [] = Inr (map (record_of_line papa) (xs @ ys))"
    by (simp only: parse_rows_drop_short)
  show "length (map (record_of_line papa) (xs @ ys)) + 1 = length (xs @ l # ys)" by simp
  assume "valid_line papa v"
  with v have "\<forall>x \<in> set (xs @ v # ys). valid_line papa x" by auto
  from parse_rows_valid [OF this, of "[]"]
  show "parse_rows papa (xs @ v # ys) [] = Inr (map (record_of_line papa) (xs @ v # ys))" by simp
qed

theorem short_row_omitted_witness:
  "short_line plain_splitter row_short \<and>
   valid_line plain_splitter row_a \<and> valid_line plain_splitter row_b \<and>
   parse_rows plain_splitter [row_a, row_short, row_b] [] =
     Inr [record_of_line plain_splitter row_a, record_of_line plain_splitter row_b] \<and>
   parse_rows plain_splitter [row_a, row_b] [] =
     Inr [record_of_line plain_splitter row_a, record_of_line plain_splitter row_b] \<and>
   parse_rows plain_splitter [row_a, row_neg, row_b] [] =
     Inr [record_of_line plain_splitter row_a, record_of_line plain_splitter row_neg,
          record_of_line plain_splitter row_b]"
  using short_row_omitted [of plain_splitter row_short "[row_a]" "[row_b]" "[]" row_neg]
    short_row_short rows_valid
  by simp

text \<open>
  C8 as stated compares with the same input without the short row, where the count is
  the same, not greater by 1: both reports give 2 records.
\<close>

theorem short_row_count_counterexample:
  "parseCSVData plain_splitter sample_report \<noteq> None \<and>
   parseCSVData plain_splitter sample_report_clean \<noteq> None \<and>
   length (data (the (parseCSVData plain_splitter sample_report))) = 2 \<and>
   length (data (the (parseCSVData plain_splitter sample_report_clean))) = 2 \<and>
   int (length (data (the (parseCSVData plain_splitter sample_report)))) \<noteq>
     int (length (data (the (parseCSVData plain_splitter sample_report_clean)))) - 1"
  by (simp add: sample_parse clean_parse)



section \<open>The statistics\<close>






text \<open>
  C1 at a report whose data section is empty: the parse succeeds with no record, and every
  field of \<open>maxValues\<close> is \<open>-Infinity\<close>, not 0.
\<close>

theorem max_of_empty_is_NegInfinity:
  "parseCSVData plain_splitter empty_report \<noteq> None \<and>
   data (the (parseCSVData plain_splitter empty_report)) = [] \<and>
   maxValues (statistics (the (parseCSVData plain_splitter empty_report))) =
     \<lparr> m_views = NegInfinity, m_clicks = NegInfinity, m_cost = NegInfinity, m_gmv = NegInfinity \<rparr>"
  by (simp add: empty_parse stats_defs)

text \<open>
  The same for every input that parses to no record, and the other half of C1: over at
  least one record, each maximum is the true one.
\<close>

lemma maxValues_empty:
  "maxValues (snd (calc_statistics [])) =
     \<lparr> m_views = NegInfinity, m_clicks = NegInfinity, m_cost = NegInfinity, m_gmv = NegInfinity \<rparr>"
  by (simp add: calc_statistics_def Let_def Math_max_def js_sort_def)

lemma maxValues_nonempty:
  "items \<noteq> [] \<Longrightarrow>
   maxValues (snd (calc_statistics items)) =
     \<lparr> m_views = Finite (Max (views ` set items)), m_clicks = Finite (Max (clicks ` set items)),
       m_cost = Finite (Max (cost ` set items)), m_gmv = Finite (Max (gmv ` set items)) \<rparr>"
  by (simp add: calc_statistics_def Let_def Math_max_sorted)

text \<open>
  C4.  For each of views, clicks, cost and gmv, the minimum of the statistics is 0 when no
  record has a strictly positive value of the metric, and otherwise the least value among
  the records whose value is strictly positive.
\<close>

theorem minValues_zero_excluded:
  "m_views (minValues (snd (calc_statistics items))) =
     (if \<forall>r \<in> set items. views r \<le> 0 then Finite 0
      else Finite (Min (views ` {r \<in> set items. 0 < views r}))) \<and>
   m_clicks (minValues (snd (calc_statistics items))) =
     (if \<forall>r \<in> set items. clicks r \<le> 0 then Finite 0
      else Finite (Min (clicks ` {r \<in> set items. 0 < clicks r}))) \<and>
   m_cost (minValues (snd (calc_statistics items))) =
     (if \<forall>r \<in> set items. cost r \<le> 0 then Finite 0
      else Finite (Min (cost ` {r \<in> set items. 0 < cost r}))) \<and>
   m_gmv (minValues (snd (calc_statistics items))) =
     (if \<forall>r \<in> set items. gmv r \<le> 0 then Finite 0
      else Finite (Min (gmv ` {r \<in> set items. 0 < gmv r})))"
  by (simp add: calc_statistics_def Let_def min_nonzero_sorted)

theorem minValues_zero_excluded_witness:
  "m_views (minValues (snd (calc_statistics sample_items))) = Finite 100 \<and>
   m_clicks (minValues (snd (calc_statistics sample_items))) = Finite 5 \<and>
   m_cost (minValues (snd (calc_statistics sample_items))) = Finite 120 \<and>
   m_gmv (minValues (snd (calc_statistics sample_items))) = Finite 5000 \<and>
   m_views (minValues (snd (calc_statistics [item_neg]))) = Finite 0"
  using minValues_zero_excluded [of sample_items]
    minValues_zero_excluded [of "[item_neg]"]
  by (simp add: stats_defs item_defs)

text \<open>
  C5.  The ranking has \<open>min 10 n\<close> entries for \<open>n\<close> records, in order of
  non-increasing views, and each entry carries the keyword, views, clicks and cost of one
  of the records.
\<close>

theorem topKeywords_ranking:
  "length (topKeywords (snd (calc_statistics items))) = min 10 (length items) \<and>
   sorted_wrt (\<lambda>a b. top_views b \<le> top_views a) (topKeywords (snd (calc_statistics items))) \<and>
   (\<forall>k \<in> set (topKeywords (snd (calc_statistics items))).
      \<exists>r \<in> set items. top_keyword k = keyword r \<and> top_views k = views r \<and>
         top_clicks k = clicks r \<and> top_cost k = cost r)"
proof (intro conjI)
  show "length (topKeywords (snd (calc_statistics items))) = min 10 (length items)"
    by (simp add: calc_statistics_def Let_def length_js_sort min.commute)
  have "sorted_wrt views_desc (take 10 (js_sort by_views_desc items))"
    by (rule sorted_wrt_take) (rule sorted_js_sort)
  then show "sorted_wrt (\<lambda>a b. top_views b \<le> top_views a) (topKeywords (snd (calc_statistics items)))"
    by (simp add: calc_statistics_def Let_def sorted_wrt_map to_top_def)
  show "\<forall>k \<in> set (topKeywords (snd (calc_statistics items))).
      \<exists>r \<in> set items. top_keyword k = keyword r \<and> top_views k = views r \<and>
         top_clicks k = clicks r \<and> top_cost k = cost r"
  proof
    fix k assume "k \<in> set (topKeywords (snd (calc_statistics items)))"
    then obtain r where "r \<in> set (take 10 (js_sort by_views_desc items))" and k: "k = to_top r"
      by (auto simp: calc_statistics_def Let_def)
    then have "r \<in> set items"
      using set_take_subset [of 10 "js_sort by_views_desc items"] by (auto simp: set_js_sort)
    with k show "\<exists>r \<in> set items. top_keyword k = keyword r \<and> top_views k = views r \<and>
         top_clicks k = clicks r \<and> top_cost k = cost r"
      by (auto simp: to_top_def)
  qed
qed

theorem topKeywords_ranking_witness:
  "length (topKeywords (snd (calc_statistics sample_items))) = 2 \<and>
   map top_views (topKeywords (snd (calc_statistics sample_items))) = [250, 100] \<and>
   map top_clicks (topKeywords (snd (calc_statistics sample_items))) = [5, 10] \<and>
   length (topKeywords (snd (calc_statistics (replicate 12 (make_AdData []))))) = 10"
  using topKeywords_ranking [of sample_items]
    topKeywords_ranking [of "replicate 12 (make_AdData [])"]
  by (simp add: stats_defs item_defs)

text \<open>
  C9.  The sort of the ranking reorders the array that is returned: for every successful
  parse the returned records are the source records sorted, in order of non-increasing
  views, and the ranking is their first ten.
\<close>

theorem returned_data_sorted:
  "parseCSVData papa t = Some r \<longrightarrow>
     sorted_wrt views_desc (data r) \<and>
     topKeywords (statistics r) = map to_top (take 10 (data r)) \<and>
     (\<exists>items. source_records papa t = Inr items \<and> data r = js_sort by_views_desc items \<and>
        mset (data r) = mset items)"
proof
  assume a: "parseCSVData papa t = Some r"
  then obtain items where s: "source_records papa t = Inr items"
    by (cases "source_records papa t") (simp_all add: parseCSVData_via)
  with a have r: "r = \<lparr> header = parse_header (split_lines t), data = js_sort by_views_desc items,
                 statistics = snd (calc_statistics items) \<rparr>"
    by (simp add: parseCSVData_via)
  have 1: "sorted_wrt views_desc (data r)" by (simp add: r sorted_js_sort)
  have 2: "topKeywords (statistics r) = map to_top (take 10 (data r))"
    by (simp add: r calc_statistics_def Let_def)
  have 3: "data r = js_sort by_views_desc items \<and> mset (data r) = mset items"
    by (simp add: r mset_js_sort)
  from 1 2 3 s show "sorted_wrt views_desc (data r) \<and>
     topKeywords (statistics r) = map to_top (take 10 (data r)) \<and>
     (\<exists>items. source_records papa t = Inr items \<and> data r = js_sort by_views_desc items \<and>
        mset (data r) = mset items)" by blast
qed

theorem returned_data_sorted_witness:
  "source_records plain_splitter sample_report = Inr sample_items \<and>
   map order sample_items = [1, 2] \<and>
   map views sample_items = [100, 250] \<and>
   map order (data (the (parseCSVData plain_splitter sample_report))) = [2, 1] \<and>
   map views (data (the (parseCSVData plain_splitter sample_report))) = [250, 100] \<and>
   sorted_wrt views_desc (data (the (parseCSVData plain_splitter sample_report)))"
proof -
  have "map order sample_items = [1, 2] \<and> map views sample_items = [100, 250]"
    by (simp add: item_defs)
  moreover have "map order [item_b, item_a] = [2, 1] \<and>
     map views [item_b, item_a] = [250, 100]"
    by (simp add: item_defs)
  moreover have "sorted_wrt views_desc (data (the (parseCSVData plain_splitter sample_report)))"
    using returned_data_sorted [of plain_splitter sample_report
        "the (parseCSVData plain_splitter sample_report)"]
    by (simp add: sample_parse)
  ultimately show ?thesis by (simp add: sample_parse sample_source)
qed

end
